theory Spec2Isabelle
  imports Complex_Main "HOL-Library.Sublist"
begin

section \<open>Python values, exceptions and the operators the calculators use\<close>

text \<open>
  The calculators of \<^verbatim>\<open>lroma_calculator.py\<close> and \<^verbatim>\<open>fmip_model.py\<close> read their
  inputs out of dictionaries, so an input can hold any Python value. The values modelled
  are integers, floats, strings, \<^verbatim>\<open>None\<close> and lists of such values. A float is an
  exact real number: rounding, overflow and the special values of IEEE arithmetic are
  outside the model. The one place where the source itself writes an infinity,
  \<^verbatim>\<open>float('inf')\<close> in \<^verbatim>\<open>calculate_fmip\<close>, has a constructor of its own in the type
  of that result.
\<close>

datatype pyval =
    PInt int
  | PFloat real
  | PStr string
  | PNone
  | PList "pyval list"

datatype pyerr =
    KeyError string
  | ZeroDivisionError
  | TypeError

fun rbind :: "pyerr + 'a \<Rightarrow> ('a \<Rightarrow> pyerr + 'b) \<Rightarrow> pyerr + 'b" where
  "rbind (Inl e) f = Inl e"
| "rbind (Inr v) f = f v"

fun num_val :: "pyval \<Rightarrow> real option" where
  "num_val (PInt i) = Some (of_int i)"
| "num_val (PFloat r) = Some r"
| "num_val _ = None"

definition is_number :: "pyval \<Rightarrow> bool" where
  "is_number v = (num_val v \<noteq> None)"

definition real_of :: "pyval \<Rightarrow> real" where
  "real_of v = (case num_val v of Some r \<Rightarrow> r | None \<Rightarrow> 0)"

text \<open>Unary minus, \<^verbatim>\<open>-x\<close>.\<close>

fun py_neg :: "pyval \<Rightarrow> pyerr + pyval" where
  "py_neg (PInt i) = Inr (PInt (- i))"
| "py_neg (PFloat r) = Inr (PFloat (- r))"
| "py_neg _ = Inl TypeError"

text \<open>\<^verbatim>\<open>a + b\<close>: numbers add, two strings or two lists concatenate.\<close>

fun py_add :: "pyval \<Rightarrow> pyval \<Rightarrow> pyerr + pyval" where
  "py_add (PInt a) (PInt b) = Inr (PInt (a + b))"
| "py_add (PInt a) (PFloat b) = Inr (PFloat (of_int a + b))"
| "py_add (PFloat a) (PInt b) = Inr (PFloat (a + of_int b))"
| "py_add (PFloat a) (PFloat b) = Inr (PFloat (a + b))"
| "py_add (PStr a) (PStr b) = Inr (PStr (a @ b))"
| "py_add (PList a) (PList b) = Inr (PList (a @ b))"
| "py_add _ _ = Inl TypeError"

text \<open>\<^verbatim>\<open>a - b\<close>.\<close>

fun py_sub :: "pyval \<Rightarrow> pyval \<Rightarrow> pyerr + pyval" where
  "py_sub (PInt a) (PInt b) = Inr (PInt (a - b))"
| "py_sub (PInt a) (PFloat b) = Inr (PFloat (of_int a - b))"
| "py_sub (PFloat a) (PInt b) = Inr (PFloat (a - of_int b))"
| "py_sub (PFloat a) (PFloat b) = Inr (PFloat (a - b))"
| "py_sub _ _ = Inl TypeError"

text \<open>
  \<^verbatim>\<open>a * b\<close>: numbers multiply; a string or a list times an integer is repeated that
  many times (not at all for a count below one).
\<close>

fun py_mul :: "pyval \<Rightarrow> pyval \<Rightarrow> pyerr + pyval" where
  "py_mul (PInt a) (PInt b) = Inr (PInt (a * b))"
| "py_mul (PInt a) (PFloat b) = Inr (PFloat (of_int a * b))"
| "py_mul (PFloat a) (PInt b) = Inr (PFloat (a * of_int b))"
| "py_mul (PFloat a) (PFloat b) = Inr (PFloat (a * b))"
| "py_mul (PStr s) (PInt n) = Inr (PStr (concat (replicate (nat n) s)))"
| "py_mul (PInt n) (PStr s) = Inr (PStr (concat (replicate (nat n) s)))"
| "py_mul (PList xs) (PInt n) = Inr (PList (concat (replicate (nat n) xs)))"
| "py_mul (PInt n) (PList xs) = Inr (PList (concat (replicate (nat n) xs)))"
| "py_mul _ _ = Inl TypeError"

text \<open>
  \<^verbatim>\<open>a / b\<close>, true division: the result is a float also for two integers, and a zero
  divisor raises. An operand that is no number raises \<^verbatim>\<open>TypeError\<close> whatever the
  other operand is.
\<close>

definition py_truediv :: "pyval \<Rightarrow> pyval \<Rightarrow> pyerr + pyval" where
  "py_truediv a b =
     (case (num_val a, num_val b) of
        (Some x, Some y) \<Rightarrow> if y = 0 then Inl ZeroDivisionError else Inr (PFloat (x / y))
      | _ \<Rightarrow> Inl TypeError)"

text \<open>
  \<^verbatim>\<open>a ** t\<close> for an exponent \<open>t\<close> that an \<^verbatim>\<open>enumerate\<close> or a \<^verbatim>\<open>range\<close> starting at
  0 or 1 produced, a natural number. \<^verbatim>\<open>0 ** 0\<close> is 1 in Python as in HOL.
\<close>

fun py_pow :: "pyval \<Rightarrow> nat \<Rightarrow> pyerr + pyval" where
  "py_pow (PInt b) t = Inr (PInt (b ^ t))"
| "py_pow (PFloat b) t = Inr (PFloat (b ^ t))"
| "py_pow _ t = Inl TypeError"

text \<open>Truth value of an object, as \<^verbatim>\<open>not x\<close> and \<^verbatim>\<open>if x\<close> test it.\<close>

fun py_bool :: "pyval \<Rightarrow> bool" where
  "py_bool (PInt i) = (i \<noteq> 0)"
| "py_bool (PFloat r) = (r \<noteq> 0)"
| "py_bool (PStr s) = (s \<noteq> [])"
| "py_bool PNone = False"
| "py_bool (PList xs) = (xs \<noteq> [])"

text \<open>\<^verbatim>\<open>x == 0\<close>: a value that is no number is different from 0.\<close>

definition py_eq_zero :: "pyval \<Rightarrow> bool" where
  "py_eq_zero v = (num_val v = Some 0)"

text \<open>\<^verbatim>\<open>x > 0\<close>: ordering a string, a list or \<^verbatim>\<open>None\<close> against an integer raises.\<close>

definition py_gt_zero :: "pyval \<Rightarrow> pyerr + bool" where
  "py_gt_zero v = (case num_val v of Some x \<Rightarrow> Inr (0 < x) | None \<Rightarrow> Inl TypeError)"

text \<open>
  The items an iteration over a value yields: the elements of a list, the characters of
  a string (each a string of length one); no other value modelled is iterable.
\<close>

fun py_iter :: "pyval \<Rightarrow> pyerr + pyval list" where
  "py_iter (PList xs) = Inr xs"
| "py_iter (PStr s) = Inr (map (\<lambda>c. PStr [c]) s)"
| "py_iter _ = Inl TypeError"

text \<open>\<^verbatim>\<open>range(1, stop)\<close>: the stop must be an integer.\<close>

fun py_range_from_1 :: "pyval \<Rightarrow> pyerr + nat list" where
  "py_range_from_1 (PInt n) = Inr [1..<nat n]"
| "py_range_from_1 _ = Inl TypeError"

text \<open>
  \<^verbatim>\<open>sum(gen)\<close> over a generator expression. The generator is the list of the outcomes of
  its items in order; \<^verbatim>\<open>sum\<close> starts from the integer 0 and adds item after item, and
  the first item that raises ends the sum with that exception.
\<close>

fun py_sum_from :: "pyval \<Rightarrow> (pyerr + pyval) list \<Rightarrow> pyerr + pyval" where
  "py_sum_from acc [] = Inr acc"
| "py_sum_from acc (x # xs) =
     rbind x (\<lambda>v. rbind (py_add acc v) (\<lambda>acc'. py_sum_from acc' xs))"

definition py_sum :: "(pyerr + pyval) list \<Rightarrow> pyerr + pyval" where
  "py_sum gen = py_sum_from (PInt 0) gen"

text \<open>
  The item \<^verbatim>\<open>cf / (1 + discount_rate) ** t\<close> that all four generator expressions of
  the two calculators share. The right operand is evaluated before the division is
  attempted.
\<close>

definition discounted :: "pyval \<Rightarrow> pyval \<Rightarrow> nat \<Rightarrow> pyerr + pyval" where
  "discounted cf discount_rate t =
     rbind (py_add (PInt 1) discount_rate) (\<lambda>base.
     rbind (py_pow base t) (\<lambda>factor.
     py_truediv cf factor))"

text \<open>A dictionary is an association list in insertion order; \<^verbatim>\<open>d[k]\<close> raises on a missing key.\<close>

type_synonym 'v dict = "(string \<times> 'v) list"

definition getitem :: "'v dict \<Rightarrow> string \<Rightarrow> pyerr + 'v" where
  "getitem d k = (case map_of d k of None \<Rightarrow> Inl (KeyError k) | Some v \<Rightarrow> Inr v)"

text \<open>\<^verbatim>\<open>d[k] = v\<close>: an existing key keeps its place, a new key goes to the end.\<close>

fun setitem :: "'v dict \<Rightarrow> string \<Rightarrow> 'v \<Rightarrow> 'v dict" where
  "setitem [] k v = [(k, v)]"
| "setitem ((k', v') # d) k v = (if k' = k then (k, v) # d else (k', v') # setitem d k v)"

section \<open>LROMACalculator\<close>


text \<open>
  The summation written inline in \<^verbatim>\<open>calculate_lroma\<close> (lines 37-38): the same
  generator with \<^verbatim>\<open>enumerate(cash_flows)\<close>, whose first index is 0.
\<close>

definition lroma_npv :: "pyval list \<Rightarrow> pyval \<Rightarrow> pyerr + pyval" where
  "lroma_npv cash_flows discount_rate =
     py_sum (map (\<lambda>(t, cf). discounted cf discount_rate t) (enumerate 0 cash_flows))"

text \<open>The discounted distance of \<^verbatim>\<open>calculate_lroma\<close> (lines 41-42).\<close>

definition lroma_pv_distance :: "pyval \<Rightarrow> pyval \<Rightarrow> pyval \<Rightarrow> pyerr + pyval" where
  "lroma_pv_distance annual_distance discount_rate vehicle_life =
     rbind (py_add vehicle_life (PInt 1)) (\<lambda>stop.
     rbind (py_range_from_1 stop) (\<lambda>ts.
     py_sum (map (\<lambda>t. discounted annual_distance discount_rate t) ts)))"

definition calculate_lroma :: "pyval dict \<Rightarrow> pyerr + pyval" where
  "calculate_lroma vehicle_params =
     rbind (getitem vehicle_params ''capex'') (\<lambda>capex.
     rbind (getitem vehicle_params ''annual_distance'') (\<lambda>annual_distance.
     rbind (getitem vehicle_params ''tco_per_km'') (\<lambda>tco_per_km.
     rbind (getitem vehicle_params ''freight_rate'') (\<lambda>freight_rate.
     rbind (getitem vehicle_params ''discount_rate'') (\<lambda>discount_rate.
     rbind (getitem vehicle_params ''vehicle_life'') (\<lambda>vehicle_life.
     rbind (py_sub freight_rate tco_per_km) (\<lambda>margin.
     rbind (py_mul annual_distance margin) (\<lambda>annual_profit.
     rbind (py_neg capex) (\<lambda>outlay.
     rbind (py_mul (PList [annual_profit]) vehicle_life) (\<lambda>profits.
     rbind (py_iter profits) (\<lambda>profit_items.
     rbind (lroma_npv (outlay # profit_items) discount_rate) (\<lambda>npv.
     rbind (lroma_pv_distance annual_distance discount_rate vehicle_life) (\<lambda>pv_distance.
     if \<not> py_eq_zero pv_distance then py_truediv npv pv_distance
     else Inr (PInt 0))))))))))))))"

section \<open>FMIPCalculator\<close>

text \<open>
  \<^verbatim>\<open>calculate_present_value\<close>: a falsy argument (an empty list, but also an empty
  string, a zero or \<^verbatim>\<open>None\<close>) gives 0.0 before anything is iterated.
\<close>

definition calculate_present_value :: "pyval \<Rightarrow> pyval \<Rightarrow> pyerr + pyval" where
  "calculate_present_value cash_flows discount_rate =
     (if \<not> py_bool cash_flows then Inr (PFloat 0)
      else rbind (py_iter cash_flows) (\<lambda>cfs.
           py_sum (map (\<lambda>(t, cf). discounted cf discount_rate t) (enumerate 1 cfs))))"

text \<open>
  \<^verbatim>\<open>repr\<close> of a string, which is how a key shows inside the \<^verbatim>\<open>repr\<close> of a list and
  in the \<^verbatim>\<open>str\<close> of a \<^verbatim>\<open>KeyError\<close>. A \<open>char\<close> is read as the code point of the same
  number, below 256. Python quotes with \<^verbatim>\<open>'\<close> unless the string holds a \<^verbatim>\<open>'\<close> and no
  \<^verbatim>\<open>"\<close>; it escapes the backslash, the quote in use, tab, newline and carriage return
  by a backslash and writes every other non-printable code point as \<^verbatim>\<open>\xhh\<close>.
\<close>

definition hex_digit :: "nat \<Rightarrow> char" where
  "hex_digit n = ''0123456789abcdef'' ! (n mod 16)"

definition py_printable :: "char \<Rightarrow> bool" where
  "py_printable c =
     (let n = of_char c :: nat
      in (32 \<le> n \<and> n < 127) \<or> (161 \<le> n \<and> n \<noteq> 173))"

definition repr_char :: "char \<Rightarrow> char \<Rightarrow> string" where
  "repr_char quote c =
     (if c = quote \<or> c = CHR 0x5C then [CHR 0x5C, c]
      else if c = CHR 0x09 then [CHR 0x5C, CHR ''t'']
      else if c = CHR 0x0A then [CHR 0x5C, CHR ''n'']
      else if c = CHR 0x0D then [CHR 0x5C, CHR ''r'']
      else if py_printable c then [c]
      else [CHR 0x5C, CHR ''x'', hex_digit (of_char c div 16), hex_digit (of_char c mod 16)])"

definition py_repr_str :: "string \<Rightarrow> string" where
  "py_repr_str s =
     (let quote = (if CHR 0x27 \<in> set s \<and> CHR 0x22 \<notin> set s then CHR 0x22 else CHR 0x27)
      in quote # concat (map (repr_char quote) s) @ [quote])"

fun join :: "string \<Rightarrow> string list \<Rightarrow> string" where
  "join sep [] = []"
| "join sep [x] = x"
| "join sep (x # y # ys) = x @ sep @ join sep (y # ys)"

text \<open>\<^verbatim>\<open>repr\<close> of a list of strings, as \<^verbatim>\<open>list(self.parameters.keys())\<close> is formatted.\<close>

definition py_repr_keys :: "string list \<Rightarrow> string" where
  "py_repr_keys ks = ''['' @ join '', '' (map py_repr_str ks) @ '']''"

definition scenario_not_found :: "string \<Rightarrow> string list \<Rightarrow> string" where
  "scenario_not_found scenario ks =
     ''Scenario '' @ [CHR 0x27] @ scenario @ [CHR 0x27]
       @ '' not found in parameters. Available: '' @ py_repr_keys ks"

text \<open>
  The message of line 47. The \<^verbatim>\<open>str\<close> of the \<^verbatim>\<open>KeyError\<close> a dictionary raises is the
  \<^verbatim>\<open>repr\<close> of the missing key.
\<close>

definition missing_parameter :: "string \<Rightarrow> string \<Rightarrow> string" where
  "missing_parameter scenario k =
     ''Missing required parameter in scenario '' @ [CHR 0x27] @ scenario @ [CHR 0x27]
       @ '': '' @ py_repr_str k"

text \<open>
  The value under \<^verbatim>\<open>'fmip'\<close>: the quotient, 0.0, or \<^verbatim>\<open>float('inf')\<close>, which is no
  real number.
\<close>

datatype fmipval = FVal pyval | FInf

record fmip_result =
  fmip :: fmipval
  pv_public_investment :: pyval
  pv_tax_revenues :: pyval
  pv_fiscal_avoidance :: pyval
  total_fiscal_return :: pyval
  scenario :: string

text \<open>
  The \<^verbatim>\<open>try\<close> block of \<^verbatim>\<open>calculate_fmip\<close> (lines 31-45). The two arguments of each
  call are looked up before the call is made.
\<close>

definition fmip_present_values :: "pyval dict \<Rightarrow> pyerr + (pyval \<times> pyval \<times> pyval)" where
  "fmip_present_values scenario_params =
     rbind (getitem scenario_params ''public_investment_cashflows'') (\<lambda>investment.
     rbind (getitem scenario_params ''social_discount_rate'') (\<lambda>rate.
     rbind (calculate_present_value investment rate) (\<lambda>pv_investment.
     rbind (getitem scenario_params ''tax_revenue_cashflows'') (\<lambda>tax.
     rbind (getitem scenario_params ''social_discount_rate'') (\<lambda>rate.
     rbind (calculate_present_value tax rate) (\<lambda>pv_tax.
     rbind (getitem scenario_params ''fiscal_avoidance_cashflows'') (\<lambda>avoidance.
     rbind (getitem scenario_params ''social_discount_rate'') (\<lambda>rate.
     rbind (calculate_present_value avoidance rate) (\<lambda>pv_avoidance.
     Inr (pv_investment, pv_tax, pv_avoidance))))))))))"

text \<open>The branch of lines 50-53.\<close>

definition fmip_ratio :: "pyval \<Rightarrow> pyval \<Rightarrow> pyval \<Rightarrow> pyerr + fmipval" where
  "fmip_ratio pv_investment pv_tax pv_avoidance =
     (if py_eq_zero pv_investment then
        rbind (py_add pv_tax pv_avoidance) (\<lambda>total.
        rbind (py_gt_zero total) (\<lambda>positive.
        Inr (if positive then FInf else FVal (PFloat 0))))
      else
        rbind (py_add pv_tax pv_avoidance) (\<lambda>total.
        rbind (py_truediv total pv_investment) (\<lambda>q.
        Inr (FVal q))))"

definition calculate_fmip :: "pyval dict dict \<Rightarrow> string \<Rightarrow> pyerr + fmip_result" where
  "calculate_fmip parameters scenario_name =
     (case map_of parameters scenario_name of
        None \<Rightarrow> Inl (KeyError (scenario_not_found scenario_name (map fst parameters)))
      | Some scenario_params \<Rightarrow>
          (case fmip_present_values scenario_params of
             Inl (KeyError k) \<Rightarrow> Inl (KeyError (missing_parameter scenario_name k))
           | Inl e \<Rightarrow> Inl e
           | Inr (pv_investment, pv_tax, pv_avoidance) \<Rightarrow>
               rbind (fmip_ratio pv_investment pv_tax pv_avoidance) (\<lambda>ratio.
               rbind (py_add pv_tax pv_avoidance) (\<lambda>total.
               Inr \<lparr> fmip = ratio,
                     pv_public_investment = pv_investment,
                     pv_tax_revenues = pv_tax,
                     pv_fiscal_avoidance = pv_avoidance,
                     total_fiscal_return = total,
                     scenario = scenario_name \<rparr>))))"

section \<open>The sums of the specification and the reference input\<close>



text \<open>
  \<^verbatim>\<open>base_parameters\<close> of \<^verbatim>\<open>run_analysis.py\<close>, also the input of the test. The float
  literals are the reals they denote.
\<close>

definition base_parameters :: "pyval dict" where
  "base_parameters =
     [(''capex'', PInt 4800000),
      (''annual_distance'', PInt 100000),
      (''tco_per_km'', PFloat (1320 / 100)),
      (''freight_rate'', PFloat 25),
      (''discount_rate'', PFloat (8 / 100)),
      (''vehicle_life'', PInt 8)]"

section \<open>The sensitivity sweeps, over a store of objects\<close>

text \<open>
  The sweeps copy the caller's dictionary and write into the copy, so they are modelled
  over a store in which dictionaries and lists are objects with an address. A dictionary
  entry holds a value or a reference to a list of the store; a list that nothing writes
  after its creation (an override taken from the caller's ranges) may be held by value.
  Addresses are handed out in order, \<open>dict_count\<close> and \<open>list_count\<close> being the next
  free ones.
\<close>

datatype slot = Imm pyval | ListRef nat

record store =
  dicts :: "nat \<Rightarrow> slot dict"
  lists :: "nat \<Rightarrow> pyval list"
  dict_count :: nat
  list_count :: nat

definition alloc_dict :: "store \<Rightarrow> slot dict \<Rightarrow> nat \<times> store" where
  "alloc_dict h d =
     (dict_count h, h\<lparr>dicts := (dicts h)(dict_count h := d), dict_count := Suc (dict_count h)\<rparr>)"

definition alloc_list :: "store \<Rightarrow> pyval list \<Rightarrow> nat \<times> store" where
  "alloc_list h xs =
     (list_count h, h\<lparr>lists := (lists h)(list_count h := xs), list_count := Suc (list_count h)\<rparr>)"

text \<open>\<^verbatim>\<open>d.copy()\<close>: a new dictionary with the same entries; a referenced list is shared.\<close>

definition dict_copy :: "store \<Rightarrow> nat \<Rightarrow> nat \<times> store" where
  "dict_copy h a = alloc_dict h (dicts h a)"

text \<open>\<^verbatim>\<open>d[k] = v\<close> on the dictionary at address \<open>a\<close>.\<close>

definition store_setitem :: "store \<Rightarrow> nat \<Rightarrow> string \<Rightarrow> slot \<Rightarrow> store" where
  "store_setitem h a k v = h\<lparr>dicts := (dicts h)(a := setitem (dicts h a) k v)\<rparr>"

text \<open>What a calculator reads when it follows an entry, and a whole dictionary read that way.\<close>

fun load :: "store \<Rightarrow> slot \<Rightarrow> pyval" where
  "load h (Imm v) = v"
| "load h (ListRef l) = PList (lists h l)"

definition load_dict :: "store \<Rightarrow> nat \<Rightarrow> pyval dict" where
  "load_dict h a = map (\<lambda>(k, s). (k, load h s)) (dicts h a)"

subsection \<open>\<^verbatim>\<open>LROMACalculator.sensitivity_analysis\<close>\<close>

record lroma_row =
  l_parameter :: string
  l_value :: pyval
  l_lroma :: pyval

text \<open>
  The inner loop (lines 55-66). The copy and the assignment are outside the \<^verbatim>\<open>try\<close>;
  the handler takes \<^verbatim>\<open>KeyError\<close> and \<^verbatim>\<open>ZeroDivisionError\<close>, prints a warning (which
  changes neither the table nor any object, and is not modelled) and goes on. Any other
  exception leaves the function.
\<close>

fun lroma_sweep_values ::
  "store \<Rightarrow> nat \<Rightarrow> string \<Rightarrow> pyval list \<Rightarrow> lroma_row list \<Rightarrow> (pyerr + lroma_row list) \<times> store" where
  "lroma_sweep_values h base_params param_name [] results = (Inr results, h)"
| "lroma_sweep_values h base_params param_name (v # vs) results =
     (let (modified_params, h1) = dict_copy h base_params;
          h2 = store_setitem h1 modified_params param_name (Imm v)
      in case calculate_lroma (load_dict h2 modified_params) of
           Inr lroma \<Rightarrow>
             lroma_sweep_values h2 base_params param_name vs
               (results @ [\<lparr> l_parameter = param_name, l_value = v, l_lroma = lroma \<rparr>])
         | Inl (KeyError k) \<Rightarrow> lroma_sweep_values h2 base_params param_name vs results
         | Inl ZeroDivisionError \<Rightarrow> lroma_sweep_values h2 base_params param_name vs results
         | Inl e \<Rightarrow> (Inl e, h2))"

text \<open>The outer loop (line 54) over the items of \<^verbatim>\<open>parameter_ranges\<close>.\<close>

fun lroma_sweep ::
  "store \<Rightarrow> nat \<Rightarrow> (string \<times> pyval list) list \<Rightarrow> lroma_row list \<Rightarrow> (pyerr + lroma_row list) \<times> store" where
  "lroma_sweep h base_params [] results = (Inr results, h)"
| "lroma_sweep h base_params ((param_name, vs) # rest) results =
     (case lroma_sweep_values h base_params param_name vs results of
        (Inl e, h') \<Rightarrow> (Inl e, h')
      | (Inr results', h') \<Rightarrow> lroma_sweep h' base_params rest results')"

definition lroma_sensitivity_analysis ::
  "store \<Rightarrow> nat \<Rightarrow> (string \<times> pyval list) list \<Rightarrow> (pyerr + lroma_row list) \<times> store" where
  "lroma_sensitivity_analysis h base_params parameter_ranges =
     lroma_sweep h base_params parameter_ranges []"

subsection \<open>\<^verbatim>\<open>FMIPCalculator.sensitivity_analysis\<close>\<close>

record fmip_row =
  f_parameter :: string
  f_value :: pyval
  f_fmip :: fmipval
  f_scenario :: string

text \<open>\<^verbatim>\<open>s.endswith(suffix)\<close>.\<close>

definition endswith :: "string \<Rightarrow> string \<Rightarrow> bool" where
  "endswith s suf = (length suf \<le> length s \<and> drop (length s - length suf) s = suf)"

text \<open>A list comprehension \<^verbatim>\<open>[f(x) for x in xs]\<close>: the first item that raises ends it.\<close>

fun py_list_comp :: "('a \<Rightarrow> pyerr + 'b) \<Rightarrow> 'a list \<Rightarrow> pyerr + 'b list" where
  "py_list_comp f [] = Inr []"
| "py_list_comp f (x # xs) = rbind (f x) (\<lambda>y. rbind (py_list_comp f xs) (\<lambda>ys. Inr (y # ys)))"

text \<open>
  The key \<^verbatim>\<open>f"temp_{param_name}_{value}"\<close> of the one-scenario calculator. How \<^verbatim>\<open>str\<close>
  formats the value (a float, as a rule) is a parameter \<open>fmt\<close> of the model.
\<close>

definition temp_key :: "(pyval \<Rightarrow> string) \<Rightarrow> string \<Rightarrow> pyval \<Rightarrow> string" where
  "temp_key fmt param_name v = ''temp_'' @ param_name @ ''_'' @ fmt v"

text \<open>
  Lines 108-109: a calculator over the one modified scenario is built and asked for that
  scenario; the row keeps its \<^verbatim>\<open>'fmip'\<close>.
\<close>

definition fmip_of_modified :: "(pyval \<Rightarrow> string) \<Rightarrow> string \<Rightarrow> pyval \<Rightarrow> pyval dict \<Rightarrow> pyerr + fmipval" where
  "fmip_of_modified fmt param_name v modified_params =
     rbind (calculate_fmip [(temp_key fmt param_name v, modified_params)] (temp_key fmt param_name v))
       (\<lambda>fmip_result. Inr (fmip fmip_result))"

text \<open>
  The body of the \<^verbatim>\<open>try\<close> (lines 97-109) for one override. A name ending in
  \<^verbatim>\<open>_cashflows\<close> has its list scaled into a new list, which is then stored in the copy;
  any other name is overwritten with the override.
\<close>

definition fmip_sweep_point ::
  "(pyval \<Rightarrow> string) \<Rightarrow> store \<Rightarrow> nat \<Rightarrow> string \<Rightarrow> pyval \<Rightarrow> (pyerr + fmipval) \<times> store" where
  "fmip_sweep_point fmt h base_params param_name v =
     (let (modified_params, h1) = dict_copy h base_params
      in if endswith param_name ''_cashflows'' then
           (case rbind (getitem (dicts h1 modified_params) param_name) (\<lambda>s.
                 rbind (py_iter (load h1 s)) (\<lambda>xs.
                 py_list_comp (\<lambda>x. py_mul x v) xs)) of
              Inl e \<Rightarrow> (Inl e, h1)
            | Inr scaled \<Rightarrow>
                (let (l, h2) = alloc_list h1 scaled;
                     h3 = store_setitem h2 modified_params param_name (ListRef l)
                 in (fmip_of_modified fmt param_name v (load_dict h3 modified_params), h3)))
         else
           (let h2 = store_setitem h1 modified_params param_name (Imm v)
            in (fmip_of_modified fmt param_name v (load_dict h2 modified_params), h2)))"

text \<open>The inner loop (lines 95-119): \<^verbatim>\<open>except Exception\<close> takes every exception.\<close>

fun fmip_sweep_values ::
  "(pyval \<Rightarrow> string) \<Rightarrow> store \<Rightarrow> nat \<Rightarrow> string \<Rightarrow> string \<Rightarrow> pyval list \<Rightarrow> fmip_row list
     \<Rightarrow> fmip_row list \<times> store" where
  "fmip_sweep_values fmt h base_params base_scenario param_name [] results = (results, h)"
| "fmip_sweep_values fmt h base_params base_scenario param_name (v # vs) results =
     (case fmip_sweep_point fmt h base_params param_name v of
        (Inr x, h') \<Rightarrow>
          fmip_sweep_values fmt h' base_params base_scenario param_name vs
            (results @ [\<lparr> f_parameter = param_name, f_value = v, f_fmip = x,
                           f_scenario = base_scenario \<rparr>])
      | (Inl e, h') \<Rightarrow> fmip_sweep_values fmt h' base_params base_scenario param_name vs results)"

fun fmip_sweep ::
  "(pyval \<Rightarrow> string) \<Rightarrow> store \<Rightarrow> nat \<Rightarrow> string \<Rightarrow> (string \<times> pyval list) list \<Rightarrow> fmip_row list
     \<Rightarrow> fmip_row list \<times> store" where
  "fmip_sweep fmt h base_params base_scenario [] results = (results, h)"
| "fmip_sweep fmt h base_params base_scenario ((param_name, vs) # rest) results =
     (case fmip_sweep_values fmt h base_params base_scenario param_name vs results of
        (results', h') \<Rightarrow> fmip_sweep fmt h' base_params base_scenario rest results')"

text \<open>
  \<^verbatim>\<open>self.parameters\<close> maps a scenario name to the address of its dictionary. The lookup
  of the base scenario (line 92) is outside every \<^verbatim>\<open>try\<close>.
\<close>

definition fmip_sensitivity_analysis ::
  "(pyval \<Rightarrow> string) \<Rightarrow> store \<Rightarrow> nat dict \<Rightarrow> string \<Rightarrow> (string \<times> pyval list) list
     \<Rightarrow> (pyerr + fmip_row list) \<times> store" where
  "fmip_sensitivity_analysis fmt h parameters base_scenario parameter_variations =
     (case getitem parameters base_scenario of
        Inl e \<Rightarrow> (Inl e, h)
      | Inr base_params \<Rightarrow>
          (case fmip_sweep fmt h base_params base_scenario parameter_variations [] of
             (results, h') \<Rightarrow> (Inr results, h')))"

subsection \<open>What the sweeps are to compute, row by row\<close>







text \<open>
  A store keeps what another held: every object of the first is in the second, unchanged,
  and the second may hold more.
\<close>

definition store_keeps :: "store \<Rightarrow> store \<Rightarrow> bool" where
  "store_keeps h h' =
     (dict_count h \<le> dict_count h' \<and> list_count h \<le> list_count h'
      \<and> (\<forall>a<dict_count h. dicts h' a = dicts h a)
      \<and> (\<forall>l<list_count h. lists h' l = lists h l))"

text \<open>The lists a dictionary refers to.\<close>

fun slot_refs :: "slot \<Rightarrow> nat list" where
  "slot_refs (Imm v) = []"
| "slot_refs (ListRef l) = [l]"

definition list_refs :: "slot dict \<Rightarrow> nat set" where
  "list_refs d = set (concat (map (\<lambda>(k, s). slot_refs s) d))"

text \<open>
  The caller's dictionary is an object of the store, and so is every list it refers to.
\<close>

definition allocated :: "store \<Rightarrow> nat \<Rightarrow> bool" where
  "allocated h a = (a < dict_count h \<and> (\<forall>l\<in>list_refs (dicts h a). l < list_count h))"

subsection \<open>Two small stores\<close>

text \<open>
  A store whose only object is a vehicle-parameter mapping, and one that holds a scenario
  and its three cash-flow lists. The sweeps are run on them below.
\<close>

definition vehicle_store :: store where
  "vehicle_store =
     \<lparr> dicts = (\<lambda>a. [])(0 :=
         [(''capex'', Imm (PInt 100)), (''annual_distance'', Imm (PInt 10)),
          (''tco_per_km'', Imm (PInt 3)), (''freight_rate'', Imm (PInt 8)),
          (''discount_rate'', Imm (PInt 1)), (''vehicle_life'', Imm (PInt 2))]),
       lists = (\<lambda>l. []),
       dict_count = 1,
       list_count = 0 \<rparr>"

definition scenario_store :: store where
  "scenario_store =
     \<lparr> dicts = (\<lambda>a. [])(0 :=
         [(''public_investment_cashflows'', ListRef 0),
          (''tax_revenue_cashflows'', ListRef 1),
          (''fiscal_avoidance_cashflows'', ListRef 2),
          (''social_discount_rate'', Imm (PInt 1))]),
       lists = (\<lambda>l. [])(0 := [PInt 4], 1 := [PInt 4, PInt 8], 2 := [PFloat 2]),
       dict_count = 1,
       list_count = 3 \<rparr>"

section \<open>Discounted sums over numbers\<close>

lemma num_val_cases: "num_val v = Some x \<Longrightarrow> v = PFloat x \<or> (\<exists>i. v = PInt i \<and> x = of_int i)"
  by (cases v) auto

lemma py_add_num:
  "num_val a = Some x \<Longrightarrow> num_val b = Some y \<Longrightarrow> \<exists>v. py_add a b = Inr v \<and> num_val v = Some (x + y)"
  by (cases a; cases b) auto

lemma py_sub_num:
  "num_val a = Some x \<Longrightarrow> num_val b = Some y \<Longrightarrow> \<exists>v. py_sub a b = Inr v \<and> num_val v = Some (x - y)"
  by (cases a; cases b) auto

lemma py_mul_num:
  "num_val a = Some x \<Longrightarrow> num_val b = Some y \<Longrightarrow> \<exists>v. py_mul a b = Inr v \<and> num_val v = Some (x * y)"
  by (cases a; cases b) auto

lemma py_neg_num:
  "num_val a = Some x \<Longrightarrow> \<exists>v. py_neg a = Inr v \<and> num_val v = Some (- x)"
  by (cases a) auto

lemma py_add_float: "num_val a = Some x \<Longrightarrow> py_add a (PFloat y) = Inr (PFloat (x + y))"
  by (cases a) auto

lemma discounted_num:
  assumes "num_val cf = Some x" "num_val r = Some rv" "rv \<noteq> - 1"
  shows "discounted cf r t = Inr (PFloat (x / (1 + rv) ^ t))"
proof -
  have nz: "1 + rv \<noteq> 0" using assms(3) by linarith
  from num_val_cases[OF assms(2)] show ?thesis
  proof
    assume "r = PFloat rv"
    then show ?thesis using assms(1) nz by (simp add: discounted_def py_truediv_def)
  next
    assume "\<exists>i. r = PInt i \<and> rv = of_int i"
    then obtain i where i: "r = PInt i" "rv = of_int i" by blast
    have "(1 + real_of_int i) ^ t \<noteq> 0" using nz i by simp
    then show ?thesis using assms(1) i by (simp add: discounted_def py_truediv_def)
  qed
qed

lemma py_sum_from_floats:
  "num_val acc = Some a \<Longrightarrow>
   py_sum_from acc (map (\<lambda>y. Inr (PFloat y)) ys) =
     Inr (if ys = [] then acc else PFloat (a + sum_list ys))"
proof (induction ys arbitrary: acc a)
  case Nil
  then show ?case by simp
next
  case (Cons y ys)
  have step: "py_add acc (PFloat y) = Inr (PFloat (a + y))"
    using Cons.prems by (rule py_add_float)
  have "num_val (PFloat (a + y)) = Some (a + y)" by simp
  from Cons.IH[OF this] show ?case using step by (simp add: add.assoc)
qed

lemma py_sum_floats:
  "py_sum (map (\<lambda>y. Inr (PFloat y)) ys) = Inr (if ys = [] then PInt 0 else PFloat (sum_list ys))"
  unfolding py_sum_def using py_sum_from_floats[of "PInt 0" 0 ys] by simp

lemma discounted_enumerate:
  assumes "list_all is_number cfs" "num_val r = Some rv" "rv \<noteq> - 1"
  shows "map (\<lambda>(t, cf). discounted cf r t) (enumerate s cfs) =
         map (\<lambda>y. Inr (PFloat y)) (map (\<lambda>(t, cf). real_of cf / (1 + rv) ^ t) (enumerate s cfs))"
proof -
  have "discounted cf r t = Inr (PFloat (real_of cf / (1 + rv) ^ t))"
    if "(t, cf) \<in> set (enumerate s cfs)" for t cf
  proof -
    from that have "cf \<in> set cfs" by (auto simp: in_set_enumerate_eq)
    with assms(1) have "is_number cf" by (simp add: list_all_iff)
    then obtain x where x: "num_val cf = Some x" by (auto simp: is_number_def)
    then have "real_of cf = x" by (simp add: real_of_def)
    with discounted_num[OF x assms(2,3)] show ?thesis by simp
  qed
  then show ?thesis by auto
qed

lemma sum_list_enumerate:
  "sum_list (map (\<lambda>(t, cf). f t cf) (enumerate s cfs)) = (\<Sum>i<length cfs. f (s + i) (cfs ! i))"
proof (induction cfs arbitrary: s)
  case Nil
  then show ?case by simp
next
  case (Cons c cfs)
  have "(\<Sum>i<length (c # cfs). f (s + i) ((c # cfs) ! i)) =
        f s c + (\<Sum>i<length cfs. f (Suc s + i) (cfs ! i))"
    by (simp add: sum.lessThan_Suc_shift del: sum.lessThan_Suc)
  with Cons.IH[of "Suc s"] show ?case by simp
qed

lemma enumerate_Nil_iff: "enumerate s cfs = [] \<longleftrightarrow> cfs = []"
  by (cases cfs) simp_all

lemma discounted_sum_enumerate:
  assumes "list_all is_number cfs" "num_val r = Some rv" "rv \<noteq> - 1"
  shows "py_sum (map (\<lambda>(t, cf). discounted cf r t) (enumerate s cfs)) =
         Inr (if cfs = [] then PInt 0
              else PFloat (\<Sum>i<length cfs. real_of (cfs ! i) / (1 + rv) ^ (s + i)))"
  unfolding discounted_enumerate[OF assms] py_sum_floats
  by (simp add: enumerate_Nil_iff sum_list_enumerate[where f = "\<lambda>t cf. real_of cf / (1 + rv) ^ t"])

lemma concat_replicate_single: "concat (replicate k [x]) = replicate k x"
  by (induction k) simp_all

lemma discounted_sum_range:
  assumes "num_val cf = Some x" "num_val r = Some rv" "rv \<noteq> - 1"
  shows "py_sum (map (\<lambda>t. discounted cf r t) [1..<Suc N]) =
         Inr (if N = 0 then PInt 0 else PFloat (\<Sum>t = 1..N. x / (1 + rv) ^ t))"
proof -
  let ?ts = "[1..<Suc N]"
  let ?f = "\<lambda>t. x / (1 + rv) ^ t"
  have items: "map (\<lambda>t. discounted cf r t) ?ts = map (\<lambda>y. Inr (PFloat y)) (map ?f ?ts)"
    by (simp add: discounted_num[OF assms] del: upt_Suc)
  have "set ?ts = {1..N}" by auto
  then have total: "sum_list (map ?f ?ts) = (\<Sum>t = 1..N. ?f t)"
    by (simp only: interv_sum_list_conv_sum_set_nat)
  have empty: "map ?f ?ts = [] \<longleftrightarrow> N = 0" by auto
  have "py_sum (map (\<lambda>t. discounted cf r t) ?ts) =
        Inr (if map ?f ?ts = [] then PInt 0 else PFloat (sum_list (map ?f ?ts)))"
    unfolding items by (rule py_sum_floats)
  then show ?thesis by (simp only: total empty)
qed

lemma lroma_pv_distance_num:
  assumes "num_val ad = Some x" "num_val r = Some rv" "rv \<noteq> - 1"
  shows "lroma_pv_distance ad r (PInt n) =
         Inr (if nat n = 0 then PInt 0 else PFloat (\<Sum>t = 1..nat n. x / (1 + rv) ^ t))"
proof -
  have "[1..<nat (n + 1)] = [1..<Suc (nat n)]"
    by (cases "0 \<le> n") (simp_all add: nat_add_distrib)
  then show ?thesis
    using discounted_sum_range[OF assms, of "nat n"]
    by (simp add: lroma_pv_distance_def)
qed

lemma lroma_npv_num:
  assumes "num_val outlay = Some a" "num_val ap = Some p" "num_val r = Some rv" "rv \<noteq> - 1"
  shows "lroma_npv (outlay # replicate N ap) r =
         Inr (PFloat (\<Sum>t = 0..N. (if t = 0 then a else p) / (1 + rv) ^ t))"
proof -
  let ?cfs = "outlay # replicate N ap"
  have nums: "list_all is_number ?cfs"
    using assms(1,2) by (simp add: is_number_def list_all_iff)
  have "(\<Sum>i<length ?cfs. real_of (?cfs ! i) / (1 + rv) ^ (0 + i)) =
        (\<Sum>t = 0..N. (if t = 0 then a else p) / (1 + rv) ^ t)"
  proof (rule sum.cong)
    show "{..<length ?cfs} = {0..N}" by (auto simp: less_Suc_eq_le)
  next
    fix t assume "t \<in> {0..N}"
    then show "real_of (?cfs ! t) / (1 + rv) ^ (0 + t) = (if t = 0 then a else p) / (1 + rv) ^ t"
      using assms(1,2) by (cases t) (simp_all add: real_of_def)
  qed
  with discounted_sum_enumerate[OF nums assms(3,4), of 0] show ?thesis
    by (simp add: lroma_npv_def)
qed

text \<open>The value of \<^verbatim>\<open>calculate_lroma\<close> on a mapping of numbers, at a rate other than -1.\<close>

lemma lroma_closed_form:
  assumes keys:
      "map_of vehicle_params ''capex'' = Some capex"
      "map_of vehicle_params ''annual_distance'' = Some annual_distance"
      "map_of vehicle_params ''tco_per_km'' = Some tco_per_km"
      "map_of vehicle_params ''freight_rate'' = Some freight_rate"
      "map_of vehicle_params ''discount_rate'' = Some discount_rate"
      "map_of vehicle_params ''vehicle_life'' = Some (PInt n)"
    and nums:
      "num_val capex = Some c" "num_val annual_distance = Some d"
      "num_val tco_per_km = Some k" "num_val freight_rate = Some f"
      "num_val discount_rate = Some r"
    and rate: "r \<noteq> - 1"
  shows "calculate_lroma vehicle_params =
     Inr (if (\<Sum>t = 1..nat n. d / (1 + r) ^ t) = 0 then PInt 0
          else PFloat ((\<Sum>t = 0..nat n. (if t = 0 then - c else d * (f - k)) / (1 + r) ^ t)
                       / (\<Sum>t = 1..nat n. d / (1 + r) ^ t)))"
proof -
  obtain margin where margin: "py_sub freight_rate tco_per_km = Inr margin"
      "num_val margin = Some (f - k)"
    using py_sub_num[OF nums(4) nums(3)] by blast
  obtain ap where ap: "py_mul annual_distance margin = Inr ap" "num_val ap = Some (d * (f - k))"
    using py_mul_num[OF nums(2) margin(2)] by blast
  obtain outlay where outlay: "py_neg capex = Inr outlay" "num_val outlay = Some (- c)"
    using py_neg_num[OF nums(1)] by blast
  have profits: "py_mul (PList [ap]) (PInt n) = Inr (PList (replicate (nat n) ap))"
    by (simp add: concat_replicate_single)
  note npv = lroma_npv_num[OF outlay(2) ap(2) nums(5) rate, of "nat n"]
  note pvd = lroma_pv_distance_num[OF nums(2) nums(5) rate, of n]
  show ?thesis
    unfolding calculate_lroma_def
    by (simp add: getitem_def keys margin ap outlay profits npv pvd py_eq_zero_def py_truediv_def)
qed





section \<open>Present values and messages of the FMIP calculator\<close>



lemma sublist_join: "x \<in> set xs \<Longrightarrow> sublist x (join sep xs)"
proof (induction sep xs rule: join.induct)
  case (1 sep)
  then show ?case by simp
next
  case (2 sep y)
  then show ?case by simp
next
  case (3 sep y z zs)
  show ?case
  proof (cases "x = y")
    case True
    then show ?thesis by simp
  next
    case False
    with 3 have "sublist x (join sep (z # zs))" by simp
    then obtain ps ss where "join sep (z # zs) = ps @ x @ ss" by (auto simp: sublist_def)
    then have "join sep (y # z # zs) = (y @ sep @ ps) @ x @ ss" by simp
    then show ?thesis unfolding sublist_def by blast
  qed
qed

lemma sublist_inside: "sublist x m \<Longrightarrow> sublist x (a @ m @ b)"
proof -
  assume "sublist x m"
  then obtain ps ss where "m = ps @ x @ ss" by (auto simp: sublist_def)
  then have "a @ m @ b = (a @ ps) @ x @ (ss @ b)" by simp
  then show ?thesis unfolding sublist_def by blast
qed

section \<open>The sweeps write into fresh objects only\<close>

lemma store_keeps_refl: "store_keeps h h"
  by (simp add: store_keeps_def)

lemma store_keeps_trans: "store_keeps h1 h2 \<Longrightarrow> store_keeps h2 h3 \<Longrightarrow> store_keeps h1 h3"
  by (auto simp: store_keeps_def)

lemma dict_copy_keeps: "dict_copy h a = (m, h1) \<Longrightarrow> store_keeps h h1"
  by (auto simp: dict_copy_def alloc_dict_def store_keeps_def)

lemma dict_copy_new:
  assumes "dict_copy h a = (m, h1)"
  shows "m = dict_count h" and "dicts h1 m = dicts h a" and "lists h1 = lists h"
    and "dict_count h1 = Suc (dict_count h)" and "list_count h1 = list_count h"
  using assms by (auto simp: dict_copy_def alloc_dict_def)

lemma alloc_list_keeps: "alloc_list h xs = (l, h1) \<Longrightarrow> store_keeps h h1"
  by (auto simp: alloc_list_def store_keeps_def)


lemma store_setitem_keeps:
  "store_keeps h0 h \<Longrightarrow> dict_count h0 \<le> a \<Longrightarrow> store_keeps h0 (store_setitem h a k v)"
  by (auto simp: store_keeps_def store_setitem_def)



lemma load_kept:
  assumes "store_keeps h0 h" "allocated h0 base" "(k, s) \<in> set (dicts h0 base)"
  shows "load h s = load h0 s"
proof (cases s)
  case (Imm v)
  then show ?thesis by simp
next
  case (ListRef l)
  with assms(3) have "l \<in> list_refs (dicts h0 base)" by (force simp: list_refs_def)
  with assms(2) have "l < list_count h0" by (simp add: allocated_def)
  with assms(1) have "lists h l = lists h0 l" by (simp add: store_keeps_def)
  with ListRef show ?thesis by simp
qed

lemma load_dict_kept:
  assumes "store_keeps h0 h" "allocated h0 base"
  shows "map (\<lambda>(k, s). (k, load h s)) (dicts h0 base) = load_dict h0 base"
  unfolding load_dict_def
  using load_kept[OF assms] by (intro map_cong) auto

lemma dicts_kept: "store_keeps h0 h \<Longrightarrow> allocated h0 base \<Longrightarrow> dicts h base = dicts h0 base"
  by (simp add: store_keeps_def allocated_def)



lemma lroma_sweep_values_keeps:
  "store_keeps h (snd (lroma_sweep_values h base p vs results))"
proof (induction vs arbitrary: h results)
  case Nil
  then show ?case by (simp add: store_keeps_refl)
next
  case (Cons v vs)
  obtain m h1 where copy: "dict_copy h base = (m, h1)" by (cases "dict_copy h base")
  let ?h2 = "store_setitem h1 m p (Imm v)"
  have "store_keeps h h1" using copy by (rule dict_copy_keeps)
  moreover have "dict_count h \<le> m" using dict_copy_new[OF copy] by simp
  ultimately have step: "store_keeps h ?h2" by (rule store_setitem_keeps)
  have later: "store_keeps h (snd (lroma_sweep_values ?h2 base p vs rs))" for rs
    using step Cons.IH by (rule store_keeps_trans)
  show ?case
  proof (cases "calculate_lroma (load_dict ?h2 m)")
    case (Inr x)
    then show ?thesis using later by (simp add: copy)
  next
    case (Inl e)
    then show ?thesis using later step by (cases e) (simp_all add: copy)
  qed
qed


lemma lroma_sweep_keeps: "store_keeps h (snd (lroma_sweep h base ranges results))"
proof (induction ranges arbitrary: h results)
  case Nil
  then show ?case by (simp add: store_keeps_refl)
next
  case (Cons pvs ranges)
  obtain p vs where pvs: "pvs = (p, vs)" by (cases pvs)
  obtain r h1 where inner: "lroma_sweep_values h base p vs results = (r, h1)"
    by (cases "lroma_sweep_values h base p vs results")
  have k1: "store_keeps h h1"
    using lroma_sweep_values_keeps[of h base p vs results] inner by simp
  show ?case
  proof (cases r)
    case (Inl e)
    then show ?thesis using k1 by (simp add: pvs inner)
  next
    case (Inr rs)
    have "store_keeps h (snd (lroma_sweep h1 base ranges rs))"
      using k1 Cons.IH by (rule store_keeps_trans)
    then show ?thesis using Inr by (simp add: pvs inner)
  qed
qed







lemma fmip_sweep_point_keeps: "store_keeps h (snd (fmip_sweep_point fmt h base p v))"
proof -
  obtain m h1 where copy: "dict_copy h base = (m, h1)" by (cases "dict_copy h base")
  have k1: "store_keeps h h1" using copy by (rule dict_copy_keeps)
  have m: "dict_count h \<le> m" using dict_copy_new(1)[OF copy] by simp
  let ?scaled = "rbind (getitem (dicts h1 m) p) (\<lambda>s.
                 rbind (py_iter (load h1 s)) (\<lambda>xs. py_list_comp (\<lambda>x. py_mul x v) xs))"
  show ?thesis
  proof (cases "endswith p ''_cashflows''")
    case False
    have "store_keeps h (store_setitem h1 m p (Imm v))" using k1 m by (rule store_setitem_keeps)
    then show ?thesis using False by (simp add: fmip_sweep_point_def copy Let_def)
  next
    case True
    show ?thesis
    proof (cases ?scaled)
      case (Inl e)
      then show ?thesis using True k1 by (simp add: fmip_sweep_point_def copy)
    next
      case (Inr ys)
      obtain l h2 where al: "alloc_list h1 ys = (l, h2)" by (cases "alloc_list h1 ys")
      have "store_keeps h h2" using k1 alloc_list_keeps[OF al] by (rule store_keeps_trans)
      then have "store_keeps h (store_setitem h2 m p (ListRef l))"
        using m by (rule store_setitem_keeps)
      then show ?thesis using True Inr by (simp add: fmip_sweep_point_def copy al Let_def)
    qed
  qed
qed


lemma fmip_sweep_values_keeps:
  "store_keeps h (snd (fmip_sweep_values fmt h base bs p vs results))"
proof (induction vs arbitrary: h results)
  case Nil
  then show ?case by (simp add: store_keeps_refl)
next
  case (Cons v vs)
  obtain r h1 where point: "fmip_sweep_point fmt h base p v = (r, h1)"
    by (cases "fmip_sweep_point fmt h base p v")
  have k1: "store_keeps h h1" using fmip_sweep_point_keeps[of h fmt base p v] point by simp
  have later: "store_keeps h (snd (fmip_sweep_values fmt h1 base bs p vs rs))" for rs
    using k1 Cons.IH by (rule store_keeps_trans)
  show ?case using later by (cases r) (simp_all add: point)
qed


lemma fmip_sweep_keeps: "store_keeps h (snd (fmip_sweep fmt h base bs variations results))"
proof (induction variations arbitrary: h results)
  case Nil
  then show ?case by (simp add: store_keeps_refl)
next
  case (Cons pvs variations)
  obtain p vs where pvs: "pvs = (p, vs)" by (cases pvs)
  obtain rs h1 where inner: "fmip_sweep_values fmt h base bs p vs results = (rs, h1)"
    by (cases "fmip_sweep_values fmt h base bs p vs results")
  have k1: "store_keeps h h1"
    using fmip_sweep_values_keeps[of h fmt base bs p vs results] inner by simp
  have "store_keeps h (snd (fmip_sweep fmt h1 base bs variations rs))"
    using k1 Cons.IH by (rule store_keeps_trans)
  then show ?case by (simp add: pvs inner)
qed

lemma lroma_sensitivity_keeps:
  "store_keeps h (snd (lroma_sensitivity_analysis h base ranges))"
  unfolding lroma_sensitivity_analysis_def by (rule lroma_sweep_keeps)

lemma fmip_sensitivity_keeps:
  "store_keeps h (snd (fmip_sensitivity_analysis fmt h parameters bs variations))"
proof (cases "getitem parameters bs")
  case (Inl e)
  then show ?thesis by (simp add: fmip_sensitivity_analysis_def store_keeps_refl)
next
  case (Inr base)
  then show ?thesis
    using fmip_sweep_keeps[of h fmt base bs variations "[]"]
    by (auto simp: fmip_sensitivity_analysis_def split: prod.splits)
qed



section \<open>The claims of the specification\<close>








text \<open>
  C4, as the specification states it: on \<^verbatim>\<open>base_parameters\<close> (capex 4800000, annual
  distance 100000, cost 13.20 and freight rate 25.00 per km, rate 0.08, life 8)
  \<^verbatim>\<open>calculate_lroma\<close> returns about 6.88. It returns 349689063292 / 101438785825, which
  is 3.4473 and not within half a cent of 6.88.
\<close>

theorem run_analysis_lroma_not_6_88:
  "calculate_lroma base_parameters = Inr (PFloat (349689063292 / 101438785825))
   \<and> \<not> \<bar>349689063292 / 101438785825 - 688 / 100\<bar> \<le> (5 / 1000 :: real)"
proof -
  have "calculate_lroma base_parameters = Inr (PFloat (349689063292 / 101438785825))"
    using lroma_closed_form[of base_parameters "PInt 4800000" "PInt 100000" "PFloat (1320 / 100)"
      "PFloat 25" "PFloat (8 / 100)" 8 4800000 100000 "1320 / 100" 25 "8 / 100"]
    by (simp add: base_parameters_def eval_nat_numeral)
  then show ?thesis by simp
qed

text \<open>
  C4, amended: on that input \<^verbatim>\<open>calculate_lroma\<close> returns 349689063292 / 101438785825,
  which \<^verbatim>\<open>run_analysis.py\<close> prints as 3.45, a positive number.
\<close>

theorem run_analysis_lroma_value:
  "calculate_lroma base_parameters = Inr (PFloat (349689063292 / 101438785825))
   \<and> \<bar>349689063292 / 101438785825 - 345 / 100\<bar> \<le> (5 / 1000 :: real)
   \<and> (0 :: real) < 349689063292 / 101438785825"
proof -
  have "calculate_lroma base_parameters = Inr (PFloat (349689063292 / 101438785825))"
    using lroma_closed_form[of base_parameters "PInt 4800000" "PInt 100000" "PFloat (1320 / 100)"
      "PFloat 25" "PFloat (8 / 100)" 8 4800000 100000 "1320 / 100" 25 "8 / 100"]
    by (simp add: base_parameters_def eval_nat_numeral)
  then show ?thesis by simp
qed




text \<open>
  C6. For a scenario name that is no key of the parameter mapping, \<^verbatim>\<open>calculate_fmip\<close>
  returns no result: it raises a \<^verbatim>\<open>KeyError\<close> whose message holds the requested name and
  the \<^verbatim>\<open>repr\<close> of every key of the mapping.
\<close>

theorem calculate_fmip_unknown_scenario:
  assumes "map_of parameters scenario_name = None"
  shows "calculate_fmip parameters scenario_name =
           Inl (KeyError (scenario_not_found scenario_name (map fst parameters)))
       \<and> sublist scenario_name (scenario_not_found scenario_name (map fst parameters))
       \<and> (\<forall>k\<in>set (map fst parameters).
            sublist (py_repr_str k) (scenario_not_found scenario_name (map fst parameters)))"
proof -
  let ?ks = "map fst parameters"
  have "calculate_fmip parameters scenario_name = Inl (KeyError (scenario_not_found scenario_name ?ks))"
    using assms by (simp add: calculate_fmip_def)
  moreover have "sublist scenario_name (scenario_not_found scenario_name ?ks)"
    unfolding scenario_not_found_def
    by (rule sublist_inside[where a = "''Scenario '' @ [CHR 0x27]", simplified append_assoc])
       simp
  moreover have "sublist (py_repr_str k) (scenario_not_found scenario_name ?ks)"
    if "k \<in> set ?ks" for k
  proof -
    from that have "py_repr_str k \<in> set (map py_repr_str ?ks)" by auto
    then have "sublist (py_repr_str k) (join '', '' (map py_repr_str ?ks))" by (rule sublist_join)
    then have "sublist (py_repr_str k) (py_repr_keys ?ks)"
      unfolding py_repr_keys_def by (rule sublist_inside)
    then show ?thesis
      unfolding scenario_not_found_def
      using sublist_inside[of "py_repr_str k" "py_repr_keys ?ks"
          "''Scenario '' @ [CHR 0x27] @ scenario_name @ [CHR 0x27] @ '' not found in parameters. Available: ''" "[]"]
      by simp
  qed
  ultimately show ?thesis by blast
qed

theorem calculate_fmip_unknown_scenario_witness:
  "calculate_fmip [(''base_case'', []), (''optimistic'', [])] ''pessimistic'' =
     Inl (KeyError (''Scenario '' @ [CHR 0x27] @ ''pessimistic'' @ [CHR 0x27]
        @ '' not found in parameters. Available: [''
        @ [CHR 0x27] @ ''base_case'' @ [CHR 0x27] @ '', ''
        @ [CHR 0x27] @ ''optimistic'' @ [CHR 0x27] @ '']''))"
  using calculate_fmip_unknown_scenario[of "[(''base_case'', []), (''optimistic'', [])]" "''pessimistic''"]
  by (simp add: scenario_not_found_def py_repr_keys_def py_repr_str_def repr_char_def
      py_printable_def Let_def)






text \<open>
  C9. Neither sweep changes an object the caller holds: a dictionary of the store the
  sweep started from (the base mapping is one) has the same entries afterwards and reads
  the same values, and the lists it refers to have the same elements. This holds also
  when the sweep ends with an exception. In the store of the example the scaled cash
  flows are a new list at address 3, and the list at address 1 they were computed from
  is as before.
\<close>

theorem sensitivity_analysis_frame:
  assumes "allocated h a"
  shows "dicts (snd (lroma_sensitivity_analysis h base parameter_ranges)) a = dicts h a
       \<and> load_dict (snd (lroma_sensitivity_analysis h base parameter_ranges)) a = load_dict h a
       \<and> dicts (snd (fmip_sensitivity_analysis fmt h parameters base_scenario
                  parameter_variations)) a = dicts h a
       \<and> (\<forall>l\<in>list_refs (dicts h a).
            lists (snd (fmip_sensitivity_analysis fmt h parameters base_scenario
                  parameter_variations)) l = lists h l)
       \<and> load_dict (snd (fmip_sensitivity_analysis fmt h parameters base_scenario
                  parameter_variations)) a = load_dict h a"
proof -
  let ?hl = "snd (lroma_sensitivity_analysis h base parameter_ranges)"
  let ?hf = "snd (fmip_sensitivity_analysis fmt h parameters base_scenario parameter_variations)"
  have kl: "store_keeps h ?hl" by (rule lroma_sensitivity_keeps)
  have kf: "store_keeps h ?hf" by (rule fmip_sensitivity_keeps)
  have dl: "dicts ?hl a = dicts h a" using kl assms by (rule dicts_kept)
  have df: "dicts ?hf a = dicts h a" using kf assms by (rule dicts_kept)
  have "load_dict ?hl a = load_dict h a"
    using load_dict_kept[OF kl assms] by (simp add: load_dict_def dl)
  moreover have "load_dict ?hf a = load_dict h a"
    using load_dict_kept[OF kf assms] by (simp add: load_dict_def df)
  moreover have "\<forall>l\<in>list_refs (dicts h a). lists ?hf l = lists h l"
    using kf assms by (simp add: store_keeps_def allocated_def)
  ultimately show ?thesis using dl df by simp
qed

theorem sensitivity_analysis_frame_witness:
  "dicts (snd (lroma_sensitivity_analysis vehicle_store 0
       [(''capex'', [PInt 90, PStr ''n/a'', PInt 110])])) 0 = dicts vehicle_store 0
   \<and> dicts (snd (fmip_sensitivity_analysis (\<lambda>v. ''v'') scenario_store [(''base_case'', 0)]
       ''base_case'' [(''tax_revenue_cashflows'', [PFloat (1 / 2)])])) 0 = dicts scenario_store 0
   \<and> lists (snd (fmip_sensitivity_analysis (\<lambda>v. ''v'') scenario_store [(''base_case'', 0)]
       ''base_case'' [(''tax_revenue_cashflows'', [PFloat (1 / 2)])])) 1 = [PInt 4, PInt 8]
   \<and> lists (snd (fmip_sensitivity_analysis (\<lambda>v. ''v'') scenario_store [(''base_case'', 0)]
       ''base_case'' [(''tax_revenue_cashflows'', [PFloat (1 / 2)])])) 3 = [PFloat 2, PFloat 4]"
proof -
  let ?hf = "snd (fmip_sensitivity_analysis (\<lambda>v. ''v'') scenario_store [(''base_case'', 0)]
       ''base_case'' [(''tax_revenue_cashflows'', [PFloat (1 / 2)])])"
  have a1: "allocated vehicle_store 0" by code_simp
  have a2: "allocated scenario_store 0" by code_simp
  have ref: "1 \<in> list_refs (dicts scenario_store 0)" by code_simp
  have old: "lists scenario_store 1 = [PInt 4, PInt 8]" by code_simp
  have new: "lists ?hf 3 = [PFloat 2, PFloat 4]" by code_simp
  from sensitivity_analysis_frame[OF a1, of 0 "[(''capex'', [PInt 90, PStr ''n/a'', PInt 110])]"]
  have "dicts (snd (lroma_sensitivity_analysis vehicle_store 0
       [(''capex'', [PInt 90, PStr ''n/a'', PInt 110])])) 0 = dicts vehicle_store 0"
    by simp
  moreover from sensitivity_analysis_frame[OF a2, of _ _ "\<lambda>v. ''v''" "[(''base_case'', 0)]"
      "''base_case''" "[(''tax_revenue_cashflows'', [PFloat (1 / 2)])]"] ref
  have "dicts ?hf 0 = dicts scenario_store 0 \<and> lists ?hf 1 = lists scenario_store 1"
    by blast
  ultimately show ?thesis using old new by simp
qed




end
